theory Spec2Isabelle
  imports Complex_Main "HOL-Library.AList" "HOL-Library.Sublist"
begin

section \<open>Numbers, errors and strings\<close>

text \<open>
  The laboratory generator (\<^verbatim>\<open>DataGenerators/Laboratory/lab_generator.py\<close>) computes with
  Python floats. A float is modelled as an exact rational: multiplication, comparison,
  clamping and decimal rounding are the mathematical operations, and the representation
  error of binary floating point is outside the model.

  Every \<^verbatim>\<open>raise\<close> of the source is a value \<open>Inl e\<close> of the result type.
\<close>

datatype pyerror = ValueError string | TypeError string

text \<open>
  \<^verbatim>\<open>round(x, 2)\<close> and \<^verbatim>\<open>np.round(x, 2)\<close>: rounding to the nearest multiple of 0.01,
  a tie going to the even neighbour.
\<close>

definition round_half_even :: "rat \<Rightarrow> int" where
  "round_half_even x =
     (let f = \<lfloor>x\<rfloor>; r = x - of_int f in
      if r < 1 / 2 then f
      else if 1 / 2 < r then f + 1
      else if even f then f else f + 1)"

definition round2 :: "rat \<Rightarrow> rat" where
  "round2 x = of_int (round_half_even (x * 100)) / 100"

text \<open>\<^verbatim>\<open>np.clip(val, lo, hi)\<close> is \<^verbatim>\<open>minimum(maximum(val, lo), hi)\<close>.\<close>

definition clip :: "rat \<Rightarrow> rat \<Rightarrow> rat \<Rightarrow> rat" where
  "clip v lo hi = min (max v lo) hi"

text \<open>A number with at most two decimal places: a multiple of 0.01.\<close>

definition two_decimals :: "rat \<Rightarrow> bool" where
  "two_decimals x = (of_int \<lfloor>x * 100\<rfloor> = x * 100)"

text \<open>
  Strings are byte lists (UTF-8). \<^verbatim>\<open>str.lower()\<close> is modelled on the ASCII letters, which
  is all the comparisons of the source depend on: every word compared against a lowered
  string is plain lower-case ASCII.
\<close>

definition lower_char :: "char \<Rightarrow> char" where
  "lower_char c =
     (let n = (of_char c :: nat) in if 65 \<le> n \<and> n \<le> 90 then char_of (n + 32) else c)"

definition lower :: "string \<Rightarrow> string" where
  "lower s = map lower_char s"

text \<open>\<^verbatim>\<open>needle in haystack\<close> on strings: the needle occurs as a contiguous run.\<close>

fun str_in :: "string \<Rightarrow> string \<Rightarrow> bool" where
  "str_in xs [] = (xs = [])"
| "str_in xs (y # ys) = (prefix xs (y # ys) \<or> str_in xs ys)"

text \<open>A string between single quotes, as the error messages of the source format it.\<close>

definition quoted :: "string \<Rightarrow> string" where
  "quoted s = CHR 0x27 # s @ [CHR 0x27]"

text \<open>The error \<^verbatim>\<open>float\<close> raises on a value that is neither a number nor a string.\<close>

definition float_type_error :: "string \<Rightarrow> pyerror" where
  "float_type_error type_name =
     TypeError (''float() argument must be a string or a real number, not '' @ quoted type_name)"

section \<open>The random sources\<close>

text \<open>
  The source draws from two generators, Python's \<^verbatim>\<open>random\<close> and \<^verbatim>\<open>numpy.random\<close>.
  Their outcomes are parameters of the model, so that a theorem about all random sources
  is a theorem about all seeds:
  \<^item> \<open>rs_random\<close> is the outcome of \<^verbatim>\<open>random.random()\<close>;
  \<^item> \<open>rs_choice_two\<close> tells whether \<^verbatim>\<open>random.choice([1, 2])\<close> returned 2;
  \<^item> \<open>rs_below\<close> are the successive index draws \<^verbatim>\<open>random.sample\<close> makes;
  \<^item> \<open>rs_np\<close> lists the outcomes of the successive calls of \<^verbatim>\<open>np.random.normal\<close>,
    \<^verbatim>\<open>lognormal\<close>, \<^verbatim>\<open>uniform\<close> and \<^verbatim>\<open>gamma\<close>, by call number;
  \<^item> \<open>rs_dirichlet\<close> is the vector \<^verbatim>\<open>np.random.dirichlet\<close> returns, by component.
\<close>

record random_source =
  rs_random :: rat
  rs_choice_two :: bool
  rs_below :: "nat \<Rightarrow> nat"
  rs_np :: "nat \<Rightarrow> rat"
  rs_dirichlet :: "nat \<Rightarrow> rat"

section \<open>Distribution sampling\<close>

text \<open>
  The four private samplers. Each returns the outcome \<open>draw\<close> of its numpy call; the
  moment-matched parameters of the log-normal and gamma families fix the law of that
  outcome and nothing else. \<^verbatim>\<open>np.random.normal\<close> raises on a negative scale.
\<close>

definition sample_normal :: "rat \<Rightarrow> rat \<Rightarrow> rat \<Rightarrow> pyerror + rat" where
  "sample_normal mean sd draw = (if sd < 0 then Inl (ValueError ''scale < 0'') else Inr draw)"

definition sample_lognormal :: "rat \<Rightarrow> rat \<Rightarrow> rat \<Rightarrow> pyerror + rat" where
  "sample_lognormal mean sd draw = Inr draw"

definition sample_uniform :: "rat \<Rightarrow> rat \<Rightarrow> rat \<Rightarrow> pyerror + rat" where
  "sample_uniform min_v max_v draw = Inr draw"

definition sample_gamma :: "rat \<Rightarrow> rat \<Rightarrow> rat \<Rightarrow> pyerror + rat" where
  "sample_gamma mean sd draw = Inr draw"

text \<open>
  The dictionary \<^verbatim>\<open>params\<close> of \<^verbatim>\<open>sample_value\<close>, by the keys the function reads.
  \<^verbatim>\<open>mean\<close> and \<^verbatim>\<open>sd\<close> are read with \<^verbatim>\<open>params[...]\<close> and are fields; the others are
  read with \<^verbatim>\<open>.get\<close> and are optional.
\<close>

record params =
  p_distribution :: "string option"
  p_mean :: rat
  p_sd :: rat
  p_min :: "rat option"
  p_min_val :: "rat option"
  p_max :: "rat option"
  p_max_val :: "rat option"

text \<open>\<^verbatim>\<open>d.get(k, d.get(k', None))\<close> on two optional keys.\<close>

definition get_or :: "'a option \<Rightarrow> 'a option \<Rightarrow> 'a option" where
  "get_or a b = (case a of Some v \<Rightarrow> Some v | None \<Rightarrow> b)"

definition sample_value :: "params \<Rightarrow> rat \<Rightarrow> pyerror + rat" where
  "sample_value ps draw =
     (let dist = lower (case p_distribution ps of Some d \<Rightarrow> d | None \<Rightarrow> ''normal'');
          mean = p_mean ps;
          sd = p_sd ps;
          min_v = get_or (p_min ps) (p_min_val ps);
          max_v = get_or (p_max ps) (p_max_val ps);
          sampled =
            (if dist = ''normal'' then sample_normal mean sd draw
             else if dist = ''lognormal'' then sample_lognormal mean sd draw
             else if dist = ''uniform'' then
               (case (min_v, max_v) of
                  (Some lo, Some hi) \<Rightarrow> sample_uniform lo hi draw
                | _ \<Rightarrow> Inl (ValueError ''uniform distribution requires min and max''))
             else if dist = ''gamma'' then sample_gamma mean sd draw
             else Inl (ValueError (''Unsupported distribution '' @ quoted dist)))
      in case sampled of
           Inl e \<Rightarrow> Inl e
         | Inr val \<Rightarrow>
             (case (min_v, max_v) of
                (Some lo, Some hi) \<Rightarrow> Inr (round2 (clip val lo hi))
              | _ \<Rightarrow> Inr (round2 val)))"

section \<open>The profile document\<close>

text \<open>
  A profile is the loaded JSON document. Dictionaries whose iteration order the source
  depends on are association lists, looked up with \<open>map_of\<close>. A test's dictionary
  \<^verbatim>\<open>test_info\<close> is a record of the keys the source reads, each optional as \<^verbatim>\<open>.get\<close>
  makes it; numbers are rationals, as the profile schema has them. A panel maps test names
  to such dictionaries, and the dictionary under the name \<^verbatim>\<open>differential_props\<close> is read
  through the same record: its five proportions are the last five fields.

  The value under \<^verbatim>\<open>exceptions\<close> is never inspected beyond its type, so it is kept as
  an arbitrary JSON value.
\<close>

datatype json =
    JNull
  | JBool bool
  | JNum rat
  | JStr string
  | JArr "json list"
  | JObj "(string \<times> json) list"

text \<open>
  An entry of \<^verbatim>\<open>sex_adjustment\<close>: a bare number, or a dictionary with the keys
  \<^verbatim>\<open>multiplier\<close> and \<^verbatim>\<open>sd_multiplier\<close>.
\<close>

datatype sex_entry =
    SexNum rat
  | SexDict "rat option" "rat option"

text \<open>One band of an \<^verbatim>\<open>age_adjustment\<close> list; the bounds are read with \<^verbatim>\<open>band[...]\<close>.\<close>

record band =
  b_min_age :: rat
  b_max_age :: rat
  b_mean_multiplier :: "rat option"
  b_sd_multiplier :: "rat option"

text \<open>
  \<^verbatim>\<open>age_adjustment\<close> is a dictionary, with the optional keys \<^verbatim>\<open>slope\<close> and
  \<^verbatim>\<open>ref_age\<close>, or a list of bands.
\<close>

datatype age_adjustment =
    AgeDict "rat option" "rat option"
  | AgeBands "band list"

record fac_info =
  f_mean_multiplier :: "rat option"
  f_sd_multiplier :: "rat option"
  f_exceptions :: "json option"

record test_info =
  ti_distribution :: "string option"
  ti_mean :: "rat option"
  ti_sd :: "rat option"
  ti_min :: "rat option"
  ti_min_val :: "rat option"
  ti_max :: "rat option"
  ti_max_val :: "rat option"
  ti_sex_adjustment :: "(string \<times> sex_entry) list option"
  ti_age_adjustment :: "age_adjustment option"
  ti_lifestyle :: "(string \<times> fac_info) list option"
  ti_neutrophils :: "rat option"
  ti_lymphocytes :: "rat option"
  ti_monocytes :: "rat option"
  ti_eosinophils :: "rat option"
  ti_basophils :: "rat option"

type_synonym panel = "(string \<times> test_info) list"

type_synonym profile = "(string \<times> panel) list"

type_synonym profiles = "(string \<times> profile) list"

text \<open>\<^verbatim>\<open>d.get(k, default)\<close> on an optional number.\<close>

definition get_num :: "rat option \<Rightarrow> rat \<Rightarrow> rat" where
  "get_num a d = (case a of Some v \<Rightarrow> v | None \<Rightarrow> d)"

section \<open>Adjustment of mean and sd\<close>

text \<open>\<^verbatim>\<open>float(x)\<close> on an entry of \<^verbatim>\<open>sex_adjustment\<close>: a dictionary is not a number.\<close>

definition float_entry :: "sex_entry \<Rightarrow> pyerror + rat" where
  "float_entry e =
     (case e of
        SexNum r \<Rightarrow> Inr r
      | SexDict m s \<Rightarrow>
          Inl (float_type_error ''dict''))"

text \<open>
  The first block of \<^verbatim>\<open>apply_sex_age_lifestyle\<close>:
  \<^verbatim>\<open>
  if "sex_adjustment" in test_info:
      mults = test_info["sex_adjustment"]
      adjusted_mean *= float(mults.get(sex_key, mults.get("other", 1.0)))
      if isinstance(mults.get(sex_key, None), dict):
          adjusted_sd *= float(mults[sex_key].get("sd_multiplier", 1.0))
  \<close>
\<close>

definition sex_step :: "rat \<Rightarrow> rat \<Rightarrow> test_info \<Rightarrow> string \<Rightarrow> pyerror + rat \<times> rat" where
  "sex_step adjusted_mean adjusted_sd ti sex_key =
     (case ti_sex_adjustment ti of
        None \<Rightarrow> Inr (adjusted_mean, adjusted_sd)
      | Some mults \<Rightarrow>
          (case (case map_of mults sex_key of
                   Some e \<Rightarrow> float_entry e
                 | None \<Rightarrow>
                     (case map_of mults ''other'' of
                        Some e \<Rightarrow> float_entry e
                      | None \<Rightarrow> Inr 1)) of
             Inl err \<Rightarrow> Inl err
           | Inr m \<Rightarrow>
               (case map_of mults sex_key of
                  Some (SexDict mm sdm) \<Rightarrow>
                    Inr (adjusted_mean * m, adjusted_sd * get_num sdm 1)
                | _ \<Rightarrow> Inr (adjusted_mean * m, adjusted_sd))))"

text \<open>
  The band loop: the first band whose test succeeds is applied, and \<^verbatim>\<open>break\<close> ends the
  loop.
\<close>

fun age_bands :: "rat \<Rightarrow> rat \<Rightarrow> int \<Rightarrow> band list \<Rightarrow> rat \<times> rat" where
  "age_bands adjusted_mean adjusted_sd age [] = (adjusted_mean, adjusted_sd)"
| "age_bands adjusted_mean adjusted_sd age (b # bs) =
     (if b_min_age b \<le> of_int age \<and> of_int age \<le> b_max_age b
      then (adjusted_mean * get_num (b_mean_multiplier b) 1,
            adjusted_sd * get_num (b_sd_multiplier b) 1)
      else age_bands adjusted_mean adjusted_sd age bs)"

definition age_step :: "rat \<Rightarrow> rat \<Rightarrow> test_info \<Rightarrow> int \<Rightarrow> rat \<times> rat" where
  "age_step adjusted_mean adjusted_sd ti age =
     (case ti_age_adjustment ti of
        None \<Rightarrow> (adjusted_mean, adjusted_sd)
      | Some (AgeDict (Some slope) ref_age) \<Rightarrow>
          (let ref = get_num ref_age 40;
               factor = 1 + slope * max 0 (of_int age - ref)
           in (adjusted_mean * factor, adjusted_sd * factor))
      | Some (AgeDict None ref_age) \<Rightarrow> (adjusted_mean, adjusted_sd)
      | Some (AgeBands bands) \<Rightarrow> age_bands adjusted_mean adjusted_sd age bands)"

text \<open>
  The lifestyle loop. A factor of the patient that the test's \<^verbatim>\<open>lifestyle\<close> dictionary
  lists multiplies mean and sd. The source then tests whether the factor has an
  \<^verbatim>\<open>exceptions\<close> dictionary, and the body of that test is \<^verbatim>\<open>pass\<close>.
\<close>

fun lifestyle_loop ::
  "rat \<Rightarrow> rat \<Rightarrow> (string \<times> fac_info) list \<Rightarrow> string list \<Rightarrow> rat \<times> rat" where
  "lifestyle_loop adjusted_mean adjusted_sd lm [] = (adjusted_mean, adjusted_sd)"
| "lifestyle_loop adjusted_mean adjusted_sd lm (fac # facs) =
     (case map_of lm fac of
        None \<Rightarrow> lifestyle_loop adjusted_mean adjusted_sd lm facs
      | Some fac_info \<Rightarrow>
          lifestyle_loop
            (adjusted_mean * get_num (f_mean_multiplier fac_info) 1)
            (adjusted_sd * get_num (f_sd_multiplier fac_info) 1) lm facs)"

definition lifestyle_step ::
  "rat \<Rightarrow> rat \<Rightarrow> test_info \<Rightarrow> string list option \<Rightarrow> rat \<times> rat" where
  "lifestyle_step adjusted_mean adjusted_sd ti lifestyle =
     (case lifestyle of
        None \<Rightarrow> (adjusted_mean, adjusted_sd)
      | Some [] \<Rightarrow> (adjusted_mean, adjusted_sd)
      | Some facs \<Rightarrow>
          (case ti_lifestyle ti of
             None \<Rightarrow> (adjusted_mean, adjusted_sd)
           | Some lm \<Rightarrow> lifestyle_loop adjusted_mean adjusted_sd lm facs))"

definition apply_sex_age_lifestyle ::
  "rat \<Rightarrow> rat \<Rightarrow> test_info \<Rightarrow> string \<Rightarrow> int \<Rightarrow> string list option \<Rightarrow> pyerror + rat \<times> rat" where
  "apply_sex_age_lifestyle mean sd ti sex age lifestyle =
     (let sex_key = lower (if sex = [] then ''other'' else sex) in
      case sex_step mean sd ti sex_key of
        Inl err \<Rightarrow> Inl err
      | Inr (m1, s1) \<Rightarrow>
          (case age_step m1 s1 ti age of
             (m2, s2) \<Rightarrow> Inr (lifestyle_step m2 s2 ti lifestyle)))"

section \<open>Generation of one row\<close>

text \<open>
  A value in a panel's result dictionary is a sampled number, \<^verbatim>\<open>None\<close>, or the
  dictionary kept under \<^verbatim>\<open>differential_props\<close>. A cell of the row is such a value, or
  the string or integer of the \<^verbatim>\<open>Sex\<close>, \<^verbatim>\<open>Age\<close> and \<^verbatim>\<open>Condition\<close> columns.
  Result dictionaries and the row are association lists in insertion order;
  \<^verbatim>\<open>d[k] = v\<close> is \<^const>\<open>AList.update\<close>, which overwrites in place or appends.
\<close>

datatype pval = PNum rat | PNone | PMeta test_info

datatype cell = CStr string | CInt int | CVal pval

type_synonym panel_out = "(string \<times> pval) list"

type_synonym results = "(string \<times> panel_out option) list"

type_synonym row = "(string \<times> cell) list"

subsection \<open>Panel omission\<close>

text \<open>
  \<^verbatim>\<open>random.sample(population, k)\<close> raises when \<open>k\<close> exceeds the population and otherwise
  returns \<open>k\<close> elements at distinct positions: each draw removes the chosen element from
  the pool.
\<close>

fun sample_from_pool :: "'a list \<Rightarrow> nat \<Rightarrow> (nat \<Rightarrow> nat) \<Rightarrow> nat \<Rightarrow> 'a list" where
  "sample_from_pool pool 0 below i = []"
| "sample_from_pool pool (Suc k) below i =
     (let j = below i mod length pool
      in pool ! j # sample_from_pool (take j pool @ drop (Suc j) pool) k below (Suc i))"

definition random_sample :: "'a list \<Rightarrow> nat \<Rightarrow> (nat \<Rightarrow> nat) \<Rightarrow> pyerror + 'a list" where
  "random_sample population k below =
     (if length population < k
      then Inl (ValueError ''Sample larger than population or is negative'')
      else Inr (sample_from_pool population k below 0))"

definition choose_panels_to_skip ::
  "string list \<Rightarrow> rat \<Rightarrow> random_source \<Rightarrow> pyerror + string list" where
  "choose_panels_to_skip panel_names missing_panel_prob rs =
     (if rs_random rs < missing_panel_prob
      then (let num_missing = (if rs_choice_two rs then 2 else 1)
            in random_sample panel_names num_missing (rs_below rs))
      else Inr [])"

subsection \<open>The sampling pass\<close>

text \<open>
  The loop over the tests of one panel. Its state is the panel's result dictionary, the
  dictionary \<^verbatim>\<open>shared_values\<close> and the number of numpy draws made so far. The default of
  \<^verbatim>\<open>test_info.get("sd", max(0.01, 0.1 * float(base_mean)))\<close> is evaluated before the
  lookup, so an absent mean raises.
\<close>

definition base_sd_of :: "test_info \<Rightarrow> rat \<Rightarrow> rat" where
  "base_sd_of test_info base_mean = get_num (ti_sd test_info) (max (1 / 100) (1 / 10 * base_mean))"

definition tmp_params :: "test_info \<Rightarrow> rat \<Rightarrow> rat \<Rightarrow> params" where
  "tmp_params test_info adj_mean adj_sd =
     \<lparr> p_distribution = Some (case ti_distribution test_info of Some d \<Rightarrow> d | None \<Rightarrow> ''normal''),
       p_mean = adj_mean,
       p_sd = adj_sd,
       p_min = get_or (ti_min test_info) (ti_min_val test_info),
       p_min_val = None,
       p_max = get_or (ti_max test_info) (ti_max_val test_info),
       p_max_val = None \<rparr>"

fun sample_tests ::
  "string \<Rightarrow> int \<Rightarrow> string list \<Rightarrow> (nat \<Rightarrow> rat) \<Rightarrow> panel \<Rightarrow>
   panel_out \<times> (string \<times> rat) list \<times> nat \<Rightarrow>
   pyerror + panel_out \<times> (string \<times> rat) list \<times> nat" where
  "sample_tests sex age lifestyle np [] st = Inr st"
| "sample_tests sex age lifestyle np ((test_name, test_info) # rest) (panel_out, shared_values, n) =
     (if test_name = ''differential_props''
      then sample_tests sex age lifestyle np rest
             (AList.update test_name (PMeta test_info) panel_out, shared_values, n)
      else
        (case ti_mean test_info of
           None \<Rightarrow>
             Inl (float_type_error ''NoneType'')
         | Some base_mean \<Rightarrow>
             (let base_sd = base_sd_of test_info base_mean in
              case apply_sex_age_lifestyle base_mean base_sd test_info sex age (Some lifestyle) of
                Inl err \<Rightarrow> Inl err
              | Inr (adj_mean, adj_sd) \<Rightarrow>
                  (case map_of shared_values test_name of
                     Some val \<Rightarrow>
                       sample_tests sex age lifestyle np rest
                         (AList.update test_name (PNum val) panel_out, shared_values, n)
                   | None \<Rightarrow>
                       (case sample_value (tmp_params test_info adj_mean adj_sd) (np n) of
                          Inl err \<Rightarrow> Inl err
                        | Inr val \<Rightarrow>
                            sample_tests sex age lifestyle np rest
                              (AList.update test_name (PNum val) panel_out,
                               AList.update test_name val shared_values,
                               Suc n))))))"

text \<open>The loop over the panels, in the order of the profile.\<close>

fun sample_panels ::
  "string \<Rightarrow> int \<Rightarrow> string list \<Rightarrow> (nat \<Rightarrow> rat) \<Rightarrow> string list \<Rightarrow> profile \<Rightarrow>
   results \<times> (string \<times> rat) list \<times> nat \<Rightarrow>
   pyerror + results \<times> (string \<times> rat) list \<times> nat" where
  "sample_panels sex age lifestyle np panels_to_skip [] st = Inr st"
| "sample_panels sex age lifestyle np panels_to_skip ((panel, panel_tests) # rest)
     (results, shared_values, n) =
     (if panel \<in> set panels_to_skip
      then sample_panels sex age lifestyle np panels_to_skip rest
             (AList.update panel None results, shared_values, n)
      else
        (case sample_tests sex age lifestyle np panel_tests ([], shared_values, n) of
           Inl err \<Rightarrow> Inl err
         | Inr (panel_out, shared_values', n') \<Rightarrow>
             sample_panels sex age lifestyle np panels_to_skip rest
               (AList.update panel (Some panel_out) results, shared_values', n')))"

subsection \<open>The differential of the full blood count\<close>

text \<open>The first panel whose lowered name looks like a full blood count.\<close>

definition is_fbc_name :: "string \<Rightarrow> bool" where
  "is_fbc_name pn =
     (let low = lower pn
      in str_in ''fbc'' low \<or> (str_in ''full'' low \<and> str_in ''blood'' low)
         \<or> str_in ''fullblood'' low)"

definition find_fbc_panel :: "string list \<Rightarrow> string option" where
  "find_fbc_panel panel_names = find is_fbc_name panel_names"

text \<open>The multiplication sign of the column names, in UTF-8.\<close>

definition times_sign :: string where
  "times_sign = [CHR 0xC3, CHR 0x97]"

definition wbc_candidates :: "string list" where
  "wbc_candidates =
     [''WBC ('' @ times_sign @ ''10^9/L)'', ''WBC (10^9/L)'', ''WBC'',
      ''WBC ('' @ times_sign @ ''10^9/L)'', ''WBC (x10^9/L)'']"

definition find_wbc_key :: "panel_out \<Rightarrow> string option" where
  "find_wbc_key fbc_vals =
     (case find (\<lambda>cand. map_of fbc_vals cand \<noteq> None) wbc_candidates of
        Some cand \<Rightarrow> Some cand
      | None \<Rightarrow> find (\<lambda>k. str_in ''wbc'' (lower k)) (map fst fbc_vals))"

definition diff_names :: "string list" where
  "diff_names = [''Neutrophils'', ''Lymphocytes'', ''Monocytes'', ''Eosinophils'', ''Basophils'']"

definition pct_key :: "string \<Rightarrow> string" where
  "pct_key n = n @ '' (%)''"

definition abs_key :: "string \<Rightarrow> string" where
  "abs_key n = n @ '' ('' @ times_sign @ ''10^9/L)''"

text \<open>The branch without a total: both columns of every component are \<^verbatim>\<open>None\<close>.\<close>

fun null_differential :: "string list \<Rightarrow> panel_out \<Rightarrow> panel_out" where
  "null_differential [] fbc_vals = fbc_vals"
| "null_differential (n # ns) fbc_vals =
     null_differential ns
       (AList.update (abs_key n) PNone (AList.update (pct_key n) PNone fbc_vals))"

text \<open>
  The base proportions: those of the panel's \<^verbatim>\<open>differential_props\<close> unless they sum to
  zero or less, and the defaults otherwise.
\<close>

definition default_props :: "rat list" where
  "default_props = [55 / 100, 30 / 100, 6 / 100, 7 / 100, 2 / 100]"

definition base_props_of :: "panel_out \<Rightarrow> rat list" where
  "base_props_of fbc_vals =
     (case map_of fbc_vals ''differential_props'' of
        Some (PMeta md) \<Rightarrow>
          (let base_props =
                 [get_num (ti_neutrophils md) (55 / 100),
                  get_num (ti_lymphocytes md) (30 / 100),
                  get_num (ti_monocytes md) (6 / 100),
                  get_num (ti_eosinophils md) (7 / 100),
                  get_num (ti_basophils md) (2 / 100)]
           in if sum_list base_props \<le> 0 then default_props else base_props)
      | _ \<Rightarrow> default_props)"

text \<open>\<^verbatim>\<open>np.random.dirichlet\<close> raises unless every concentration is positive.\<close>

definition dirichlet :: "rat list \<Rightarrow> (nat \<Rightarrow> rat) \<Rightarrow> pyerror + rat list" where
  "dirichlet alpha outcome =
     (if \<exists>a \<in> set alpha. a \<le> 0 then Inl (ValueError ''alpha <= 0'')
      else Inr (map outcome [0..<length alpha]))"

text \<open>\<^verbatim>\<open>np.argmax\<close>: the first index of a largest element.\<close>

fun argmax_from :: "rat list \<Rightarrow> nat \<Rightarrow> nat \<Rightarrow> rat \<Rightarrow> nat" where
  "argmax_from [] i best_i best = best_i"
| "argmax_from (x # xs) i best_i best =
     (if best < x then argmax_from xs (Suc i) i x else argmax_from xs (Suc i) best_i best)"

definition argmax :: "rat list \<Rightarrow> nat" where
  "argmax xs = (case xs of [] \<Rightarrow> 0 | x # rest \<Rightarrow> argmax_from rest 1 0 x)"

text \<open>
  The absolute counts: each proportion times the total, rounded, and the residual added to
  the largest count when it is 0.01 or more in size.
\<close>

definition reconcile_counts :: "rat list \<Rightarrow> rat \<Rightarrow> rat list" where
  "reconcile_counts sampled_props total_wbc =
     (let abs_counts = map (\<lambda>p. round2 (p * total_wbc)) sampled_props;
          sum_abs = sum_list abs_counts;
          diff = round2 (total_wbc - sum_abs)
      in if 1 / 100 \<le> \<bar>diff\<bar>
         then (let idx = argmax abs_counts
               in abs_counts[idx := round2 (abs_counts ! idx + diff)])
         else abs_counts)"

fun store_differential :: "(string \<times> rat \<times> rat) list \<Rightarrow> panel_out \<Rightarrow> panel_out" where
  "store_differential [] fbc_vals = fbc_vals"
| "store_differential ((name, prop, abs_val) # rest) fbc_vals =
     store_differential rest
       (AList.update (abs_key name) (PNum abs_val)
          (AList.update (pct_key name) (PNum (round2 (prop * 100))) fbc_vals))"

definition differential :: "panel_out \<Rightarrow> (nat \<Rightarrow> rat) \<Rightarrow> pyerror + panel_out" where
  "differential fbc_vals outcome =
     (case (case find_wbc_key fbc_vals of
              None \<Rightarrow> None
            | Some wbc_key \<Rightarrow> map_of fbc_vals wbc_key) of
        None \<Rightarrow> Inr (null_differential diff_names fbc_vals)
      | Some PNone \<Rightarrow> Inr (null_differential diff_names fbc_vals)
      | Some (PNum total_wbc) \<Rightarrow>
          (let base_props = base_props_of fbc_vals;
               alpha = map (\<lambda>p. p * 50) base_props
           in case dirichlet alpha outcome of
                Inl err \<Rightarrow> Inl err
              | Inr sampled_props \<Rightarrow>
                  (let abs_counts = reconcile_counts sampled_props total_wbc;
                       fbc_vals' =
                         store_differential (zip diff_names (zip sampled_props abs_counts))
                           fbc_vals
                   in Inr (AList.delete ''differential_props'' fbc_vals')))
      | Some (PMeta ti) \<Rightarrow>
          Inl (float_type_error ''dict''))"

text \<open>
  The differential is computed when a full blood count panel exists and was not omitted;
  the panel's dictionary is then replaced in \<^verbatim>\<open>results\<close>.
\<close>

definition add_differential ::
  "string option \<Rightarrow> results \<Rightarrow> (nat \<Rightarrow> rat) \<Rightarrow> pyerror + results" where
  "add_differential fbc_panel results outcome =
     (case fbc_panel of
        None \<Rightarrow> Inr results
      | Some fbc \<Rightarrow>
          (case map_of results fbc of
             Some (Some fbc_vals) \<Rightarrow>
               (case differential fbc_vals outcome of
                  Inl err \<Rightarrow> Inl err
                | Inr fbc_vals' \<Rightarrow> Inr (AList.update fbc (Some fbc_vals') results))
           | _ \<Rightarrow> Inr results))"

subsection \<open>The row\<close>

definition column :: "string \<Rightarrow> string \<Rightarrow> string" where
  "column panel test_name = panel @ '' - '' @ test_name"

text \<open>The columns a panel declares, read from the profile.\<close>

definition differential_columns :: "string \<Rightarrow> string list" where
  "differential_columns panel =
     concat (map (\<lambda>n. [column panel (pct_key n), column panel (abs_key n)]) diff_names)"

definition panel_columns :: "string option \<Rightarrow> string \<Rightarrow> panel \<Rightarrow> string list" where
  "panel_columns fbc_panel panel panel_tests =
     concat (map (\<lambda>(test_name, test_info).
       if test_name = ''differential_props''
       then (if Some panel = fbc_panel then differential_columns panel else [])
       else [column panel test_name]) panel_tests)"

definition all_columns :: "string option \<Rightarrow> profile \<Rightarrow> string list" where
  "all_columns fbc_panel profile =
     [''Sex'', ''Age'', ''Condition'']
     @ concat (map (\<lambda>(panel, panel_tests). panel_columns fbc_panel panel panel_tests) profile)"

text \<open>Removal of duplicates, the first occurrence staying.\<close>

fun dedupe :: "string list \<Rightarrow> string list \<Rightarrow> string list" where
  "dedupe seen [] = []"
| "dedupe seen (c # cs) = (if c \<in> set seen then dedupe seen cs else c # dedupe (c # seen) cs)"

text \<open>The values of the panels that were sampled are written over the \<^verbatim>\<open>None\<close> defaults.\<close>

fun populate_panel :: "string \<Rightarrow> panel_out \<Rightarrow> row \<Rightarrow> row" where
  "populate_panel panel [] row = row"
| "populate_panel panel ((tname, v) # rest) row =
     (if tname = ''differential_props'' then populate_panel panel rest row
      else populate_panel panel rest (AList.update (column panel tname) (CVal v) row))"

fun populate :: "results \<Rightarrow> row \<Rightarrow> row" where
  "populate [] row = row"
| "populate ((panel, vals) # rest) row =
     (case vals of
        None \<Rightarrow> populate rest row
      | Some vs \<Rightarrow> populate rest (populate_panel panel vs row))"

definition build_row ::
  "string \<Rightarrow> string \<Rightarrow> int \<Rightarrow> string option \<Rightarrow> profile \<Rightarrow> results \<Rightarrow> row" where
  "build_row condition sex age fbc_panel profile results =
     (let cols = dedupe [] (all_columns fbc_panel profile);
          row0 = map (\<lambda>c. (c, CVal PNone)) cols;
          row1 = AList.update ''Sex'' (CStr sex) row0;
          row2 = AList.update ''Age'' (CInt age) row1;
          row3 = AList.update ''Condition'' (CStr condition) row2
      in populate results row3)"

subsection \<open>The generator\<close>

text \<open>
  \<^verbatim>\<open>generate_lab_results\<close> with \<^verbatim>\<open>profiles\<close> already loaded. Seeding fixes the random
  source, which is the last argument. \<open>lab_results\<close> is the function up to the point where
  the row is built (line 287): it returns the condition's panels, the full blood count
  panel found and the dictionary \<^verbatim>\<open>results\<close>. \<open>generate_lab_results\<close> builds the row from
  these; the one-row data frame has the row's columns.
\<close>

definition lab_results ::
  "string \<Rightarrow> string \<Rightarrow> int \<Rightarrow> string list option \<Rightarrow> profiles \<Rightarrow> rat \<Rightarrow> random_source \<Rightarrow>
   pyerror + profile \<times> string option \<times> results" where
  "lab_results condition sex age lifestyle profiles_dict missing_panel_prob rs =
     (let lifestyle' = (case lifestyle of None \<Rightarrow> [] | Some l \<Rightarrow> l) in
      case map_of profiles_dict condition of
        None \<Rightarrow> Inl (ValueError (''Condition '' @ quoted condition @ '' not found in profiles''))
      | Some profile \<Rightarrow>
          (let panel_names = map fst profile in
           case choose_panels_to_skip panel_names missing_panel_prob rs of
             Inl err \<Rightarrow> Inl err
           | Inr panels_to_skip \<Rightarrow>
               (case sample_panels sex age lifestyle' (rs_np rs) panels_to_skip profile
                       ([], [], 0) of
                  Inl err \<Rightarrow> Inl err
                | Inr (results, shared_values, n) \<Rightarrow>
                    (let fbc_panel = find_fbc_panel panel_names in
                     case add_differential fbc_panel results (rs_dirichlet rs) of
                       Inl err \<Rightarrow> Inl err
                     | Inr results' \<Rightarrow> Inr (profile, fbc_panel, results')))))"

definition generate_lab_results ::
  "string \<Rightarrow> string \<Rightarrow> int \<Rightarrow> string list option \<Rightarrow> profiles \<Rightarrow> rat \<Rightarrow> random_source \<Rightarrow>
   pyerror + row" where
  "generate_lab_results condition sex age lifestyle profiles_dict missing_panel_prob rs =
     (case lab_results condition sex age lifestyle profiles_dict missing_panel_prob rs of
        Inl err \<Rightarrow> Inl err
      | Inr (profile, fbc_panel, results) \<Rightarrow>
          Inr (build_row condition sex age fbc_panel profile results))"

section \<open>Concrete inputs\<close>

text \<open>Inputs at which the properties below are evaluated.\<close>

definition narrow_bounds_params :: params where
  "narrow_bounds_params =
     \<lparr> p_distribution = None, p_mean = 1, p_sd = 1,
       p_min = Some (1234 / 1000), p_min_val = None,
       p_max = Some (1236 / 1000), p_max_val = None \<rparr>"

definition gamma_params :: params where
  "gamma_params =
     \<lparr> p_distribution = Some ''Gamma'', p_mean = 5, p_sd = 1,
       p_min = None, p_min_val = Some (35 / 10),
       p_max = Some (55 / 10), p_max_val = None \<rparr>"

definition empty_test_info :: test_info where
  "empty_test_info =
     \<lparr> ti_distribution = None, ti_mean = None, ti_sd = None, ti_min = None,
       ti_min_val = None, ti_max = None, ti_max_val = None, ti_sex_adjustment = None,
       ti_age_adjustment = None, ti_lifestyle = None, ti_neutrophils = None,
       ti_lymphocytes = None, ti_monocytes = None, ti_eosinophils = None,
       ti_basophils = None \<rparr>"

definition uniform_no_max :: params where
  "uniform_no_max =
     \<lparr> p_distribution = Some ''Uniform'', p_mean = 5, p_sd = 1,
       p_min = Some 2, p_min_val = None, p_max = None, p_max_val = None \<rparr>"

definition uniform_bounded :: params where
  "uniform_bounded =
     \<lparr> p_distribution = Some ''uniform'', p_mean = 5, p_sd = 1,
       p_min = Some 2, p_min_val = None, p_max = None, p_max_val = Some 3 \<rparr>"



definition structured_sex_test :: test_info where
  "structured_sex_test =
     empty_test_info \<lparr> ti_mean := Some 100,
       ti_sex_adjustment := Some [(''male'', SexDict (Some (11 / 10)) (Some (12 / 10)))] \<rparr>"

definition one_panel_profiles :: profiles where
  "one_panel_profiles =
     [(''Hypothyroidism'', [(''TFT'', [(''TSH'', empty_test_info \<lparr> ti_mean := Some 8 \<rparr>)])])]"

definition two_omissions_source :: random_source where
  "two_omissions_source =
     \<lparr> rs_random = 1 / 10, rs_choice_two = True, rs_below = (\<lambda>i. 0),
       rs_np = (\<lambda>n. 8), rs_dirichlet = (\<lambda>i. 1 / 5) \<rparr>"



text \<open>
  Two tests are the same up to the \<^verbatim>\<open>exceptions\<close> of their lifestyle factors when erasing
  every \<^verbatim>\<open>exceptions\<close> entry makes them equal.
\<close>

definition drop_exceptions :: "test_info \<Rightarrow> test_info" where
  "drop_exceptions ti =
     ti \<lparr> ti_lifestyle :=
            map_option (map (\<lambda>(fac, fi). (fac, fi \<lparr> f_exceptions := None \<rparr>))) (ti_lifestyle ti) \<rparr>"

definition smoker_with_exceptions :: test_info where
  "smoker_with_exceptions =
     empty_test_info \<lparr> ti_mean := Some 100,
       ti_lifestyle := Some
         [(''smoker'', \<lparr> f_mean_multiplier = Some (11 / 10), f_sd_multiplier = Some (12 / 10),
                         f_exceptions = Some (JObj [(''CRP'', JNum 3)]) \<rparr>)] \<rparr>"

definition smoker_plain :: test_info where
  "smoker_plain =
     empty_test_info \<lparr> ti_mean := Some 100,
       ti_lifestyle := Some
         [(''smoker'', \<lparr> f_mean_multiplier = Some (11 / 10), f_sd_multiplier = Some (12 / 10),
                         f_exceptions = None \<rparr>)] \<rparr>"

text \<open>The ten keys the differential writes into the full blood count panel.\<close>

definition diff_keys :: "string list" where
  "diff_keys = concat (map (\<lambda>n. [pct_key n, abs_key n]) diff_names)"

text \<open>
  The invariant of the sampling pass: every sampled value of a panel is the one
  \<^verbatim>\<open>shared_values\<close> holds for its test name, and dictionaries have distinct keys.
\<close>

definition shared_in :: "(string \<times> rat) list \<Rightarrow> panel_out \<Rightarrow> bool" where
  "shared_in shared_values vs =
     (\<forall>t v. map_of vs t = Some v \<longrightarrow> t \<noteq> ''differential_props'' \<longrightarrow>
        (\<exists>x. v = PNum x \<and> map_of shared_values t = Some x))"

definition results_ok :: "(string \<times> rat) list \<Rightarrow> results \<Rightarrow> bool" where
  "results_ok shared_values results =
     (distinct (map fst results)
      \<and> (\<forall>q vs. map_of results q = Some (Some vs) \<longrightarrow>
            distinct (map fst vs) \<and> shared_in shared_values vs))"


text \<open>Projections of a run, for stating properties of concrete runs.\<close>

definition cell_of :: "pyerror + row \<Rightarrow> string \<Rightarrow> cell option" where
  "cell_of r c = (case r of Inl err \<Rightarrow> None | Inr row \<Rightarrow> map_of row c)"

definition thirds :: "nat \<Rightarrow> rat" where
  "thirds i = [1 / 3, 1 / 3, 1 / 6, 1 / 12, 1 / 12] ! i"

definition clash_profile :: profile where
  "clash_profile =
     [(''FBC'',
        [(''WBC'', empty_test_info \<lparr> ti_mean := Some 7 \<rparr>),
         (''Neutrophils (%)'', empty_test_info \<lparr> ti_mean := Some 60 \<rparr>)]),
      (''Immunology'',
        [(''Neutrophils (%)'', empty_test_info \<lparr> ti_mean := Some 60 \<rparr>)])]"

definition clash_source :: random_source where
  "clash_source =
     \<lparr> rs_random = 1 / 2, rs_choice_two = False, rs_below = (\<lambda>i. 0),
       rs_np = (\<lambda>n. [7, 60, 29] ! n), rs_dirichlet = thirds \<rparr>"

definition plain_fbc_profile :: profile where
  "plain_fbc_profile =
     [(''FBC'', [(''WBC'', empty_test_info \<lparr> ti_mean := Some 7 \<rparr>)]),
      (''LFT'', [(''ALT'', empty_test_info \<lparr> ti_mean := Some 30 \<rparr>)])]"

definition no_omission_source :: random_source where
  "no_omission_source =
     \<lparr> rs_random = 1 / 2, rs_choice_two = False, rs_below = (\<lambda>i. 0),
       rs_np = (\<lambda>n. [7, 29] ! n), rs_dirichlet = thirds \<rparr>"

definition fbc_omitted_source :: random_source where
  "fbc_omitted_source =
     \<lparr> rs_random = 1 / 10, rs_choice_two = False, rs_below = (\<lambda>i. 0),
       rs_np = (\<lambda>n. [7, 29] ! n), rs_dirichlet = thirds \<rparr>"

definition columns_of :: "pyerror + row \<Rightarrow> string list" where
  "columns_of r = (case r of Inl err \<Rightarrow> [] | Inr row \<Rightarrow> map fst row)"



definition collision_profile :: profile where
  "collision_profile =
     [(''Haem - FBC'', [(''WBC'', empty_test_info \<lparr> ti_mean := Some 7 \<rparr>)]),
      (''Haem'',
        [(''FBC - Neutrophils ('' @ times_sign @ ''10^9/L)'',
            empty_test_info \<lparr> ti_mean := Some 99 \<rparr>)])]"

definition collision_source :: random_source where
  "collision_source =
     \<lparr> rs_random = 1 / 2, rs_choice_two = False, rs_below = (\<lambda>i. 0),
       rs_np = (\<lambda>n. [7, 99] ! n), rs_dirichlet = thirds \<rparr>"

section \<open>Rounding\<close>

lemma round_half_even_close: "\<bar>of_int (round_half_even x) - x\<bar> \<le> 1 / 2"
proof -
  have "of_int \<lfloor>x\<rfloor> \<le> x" and "x < of_int \<lfloor>x\<rfloor> + 1"
    by linarith+
  then show ?thesis
    unfolding round_half_even_def Let_def by (auto simp: abs_le_iff)
qed

lemma round_half_even_of_int: "round_half_even (of_int k) = k"
  by (simp add: round_half_even_def)

lemma round_half_even_floor: "\<lfloor>x\<rfloor> \<le> round_half_even x \<and> round_half_even x \<le> \<lfloor>x\<rfloor> + 1"
  by (simp add: round_half_even_def Let_def)

lemma round_half_even_ge:
  assumes "of_int k \<le> x"
  shows "k \<le> round_half_even x"
proof -
  from assms have "k \<le> \<lfloor>x\<rfloor>" by (simp add: le_floor_iff)
  then show ?thesis using round_half_even_floor [of x] by linarith
qed

lemma round_half_even_le:
  assumes "x \<le> of_int k"
  shows "round_half_even x \<le> k"
proof (cases "x = of_int k")
  case True
  then show ?thesis by (simp add: round_half_even_of_int)
next
  case False
  with assms have "x < of_int k" by simp
  then have "\<lfloor>x\<rfloor> < k" by (simp add: floor_less_iff)
  then show ?thesis using round_half_even_floor [of x] by linarith
qed

lemma round2_close: "\<bar>round2 x - x\<bar> \<le> 1 / 200"
proof -
  have "\<bar>of_int (round_half_even (x * 100)) - x * 100\<bar> \<le> 1 / 2"
    by (rule round_half_even_close)
  then show ?thesis
    unfolding round2_def by (simp add: abs_le_iff field_simps)
qed

lemma round2_hundredth: "round2 (of_int k / 100) = of_int k / 100"
  by (simp add: round2_def round_half_even_of_int)

lemma round2_ge: "of_int k / 100 \<le> x \<Longrightarrow> of_int k / 100 \<le> round2 x"
  unfolding round2_def using round_half_even_ge [of k "x * 100"] by (simp add: field_simps)

lemma round2_le: "x \<le> of_int k / 100 \<Longrightarrow> round2 x \<le> of_int k / 100"
  unfolding round2_def using round_half_even_le [of "x * 100" k] by (simp add: field_simps)

lemma two_decimalsD:
  assumes "two_decimals x"
  shows "x = of_int \<lfloor>x * 100\<rfloor> / 100"
proof -
  from assms have e: "of_int \<lfloor>x * 100\<rfloor> = x * 100"
    unfolding two_decimals_def .
  have "x = x * 100 / 100" by simp
  also have "\<dots> = of_int \<lfloor>x * 100\<rfloor> / 100" by (simp only: e)
  finally show ?thesis .
qed

lemma two_decimals_round2: "two_decimals (round2 x)"
  by (simp add: two_decimals_def round2_def)

section \<open>Distribution sampling: bounds and errors\<close>

lemma sample_value_Inr:
  assumes "get_or (p_min ps) (p_min_val ps) = Some lo"
    and "get_or (p_max ps) (p_max_val ps) = Some hi"
    and "sample_value ps draw = Inr v"
  shows "\<exists>raw. v = round2 (clip raw lo hi)"
  using assms unfolding sample_value_def Let_def
  by (auto split: sum.splits)

text \<open>
  Claim C1 says that with both bounds present and \<open>min \<le> max\<close> the value returned by
  \<^verbatim>\<open>sample_value\<close> lies in \<open>[min, max]\<close>. The source clamps first and rounds last, so
  the rounded value can leave the interval: with bounds 1.234 and 1.236 and a draw of 1,
  the clamped value 1.234 is rounded to 1.23, below the lower bound.
\<close>

theorem sample_value_outside_bounds:
  "get_or (p_min narrow_bounds_params) (p_min_val narrow_bounds_params) = Some (1234 / 1000)
   \<and> get_or (p_max narrow_bounds_params) (p_max_val narrow_bounds_params) = Some (1236 / 1000)
   \<and> (1234 / 1000 :: rat) \<le> 1236 / 1000
   \<and> sample_value narrow_bounds_params 1 = Inr (123 / 100)
   \<and> \<not> ((1234 / 1000 :: rat) \<le> 123 / 100)"
  by code_simp

text \<open>
  Claim C1, amended: with both bounds present and \<open>min \<le> max\<close>, the value returned by
  \<^verbatim>\<open>sample_value\<close> is the rounding to two decimals of a value in \<open>[min, max]\<close>. It
  therefore lies within 0.005 of the interval, and in the interval itself when both bounds
  have at most two decimals.
\<close>

theorem sample_value_clamped_then_rounded:
  assumes "get_or (p_min ps) (p_min_val ps) = Some lo"
    and "get_or (p_max ps) (p_max_val ps) = Some hi"
    and "lo \<le> hi"
    and "sample_value ps draw = Inr v"
  shows "(\<exists>c. lo \<le> c \<and> c \<le> hi \<and> v = round2 c)
    \<and> lo - 1 / 200 \<le> v \<and> v \<le> hi + 1 / 200
    \<and> (two_decimals lo \<and> two_decimals hi \<longrightarrow> lo \<le> v \<and> v \<le> hi)"
proof -
  from sample_value_Inr [OF assms(1,2,4)] obtain raw where v: "v = round2 (clip raw lo hi)"
    by blast
  define c where "c = clip raw lo hi"
  have c: "lo \<le> c" "c \<le> hi"
    using assms(3) by (auto simp: c_def clip_def)
  have vc: "v = round2 c"
    using v c_def by simp
  have "\<bar>round2 c - c\<bar> \<le> 1 / 200"
    by (rule round2_close)
  then have close: "v - c \<le> 1 / 200" "c - v \<le> 1 / 200"
    unfolding vc by (simp_all only: abs_le_iff minus_diff_eq)
  have 1: "\<exists>c. lo \<le> c \<and> c \<le> hi \<and> v = round2 c"
    using c vc by blast
  have 2: "lo - 1 / 200 \<le> v" "v \<le> hi + 1 / 200"
    using close c by linarith+
  have 3: "lo \<le> v \<and> v \<le> hi" if "two_decimals lo" "two_decimals hi"
  proof -
    have lo: "lo = of_int \<lfloor>lo * 100\<rfloor> / 100"
      by (rule two_decimalsD [OF that(1)])
    have hi: "hi = of_int \<lfloor>hi * 100\<rfloor> / 100"
      by (rule two_decimalsD [OF that(2)])
    have "lo \<le> round2 c"
      using round2_ge [of "\<lfloor>lo * 100\<rfloor>" c] c(1) lo by simp
    moreover have "round2 c \<le> hi"
      using round2_le [of c "\<lfloor>hi * 100\<rfloor>"] c(2) hi by simp
    ultimately show ?thesis
      using vc by simp
  qed
  show ?thesis using 1 2 3 by blast
qed

lemma gamma_params_value: "sample_value gamma_params (9817 / 1000) = Inr (55 / 10)"
  by code_simp

theorem sample_value_clamped_then_rounded_witness:
  "sample_value gamma_params (9817 / 1000) = Inr (55 / 10)
   \<and> (35 / 10 :: rat) \<le> 55 / 10 \<and> 55 / 10 \<le> (55 / 10 :: rat)"
proof -
  have a: "get_or (p_min gamma_params) (p_min_val gamma_params) = Some (35 / 10)"
    by code_simp
  have b: "get_or (p_max gamma_params) (p_max_val gamma_params) = Some (55 / 10)"
    by code_simp
  have c: "(35 / 10 :: rat) \<le> 55 / 10" by simp
  have d: "two_decimals (35 / 10)" "two_decimals (55 / 10)" by code_simp+
  show ?thesis
    using sample_value_clamped_then_rounded [OF a b c gamma_params_value] d
      gamma_params_value by simp
qed

text \<open>
  Claim C8: a call of \<^verbatim>\<open>sample_value\<close> whose distribution is \<^verbatim>\<open>uniform\<close> fails with the
  missing-bound error (the \<^verbatim>\<open>ValueError\<close> of lines 57 and 58) when the lower or the
  upper bound is absent, and returns a value when both are present.
\<close>

theorem uniform_requires_both_bounds:
  assumes "lower (case p_distribution ps of Some d \<Rightarrow> d | None \<Rightarrow> ''normal'') = ''uniform''"
  shows "(get_or (p_min ps) (p_min_val ps) = None \<or> get_or (p_max ps) (p_max_val ps) = None
            \<longrightarrow> sample_value ps draw
                  = Inl (ValueError ''uniform distribution requires min and max''))
    \<and> (get_or (p_min ps) (p_min_val ps) \<noteq> None \<and> get_or (p_max ps) (p_max_val ps) \<noteq> None
            \<longrightarrow> (\<exists>v. sample_value ps draw = Inr v))"
  using assms unfolding sample_value_def Let_def sample_uniform_def
  by (auto split: option.splits)

theorem uniform_requires_both_bounds_witness:
  "sample_value uniform_no_max 7 = Inl (ValueError ''uniform distribution requires min and max'')
   \<and> (\<exists>v. sample_value uniform_bounded 7 = Inr v)"
proof -
  have a: "lower (case p_distribution uniform_no_max of Some d \<Rightarrow> d | None \<Rightarrow> ''normal'')
             = ''uniform''"
    by code_simp
  have b: "lower (case p_distribution uniform_bounded of Some d \<Rightarrow> d | None \<Rightarrow> ''normal'')
             = ''uniform''"
    by code_simp
  have c: "get_or (p_max uniform_no_max) (p_max_val uniform_no_max) = None"
    by code_simp
  have d: "get_or (p_min uniform_bounded) (p_min_val uniform_bounded) \<noteq> None"
    "get_or (p_max uniform_bounded) (p_max_val uniform_bounded) \<noteq> None"
    by code_simp+
  show ?thesis
    using uniform_requires_both_bounds [OF a, of 7] uniform_requires_both_bounds [OF b, of 7]
      c d by blast
qed

section \<open>The default sd\<close>





section \<open>Adjustment by sex\<close>

text \<open>
  With bare numbers under every key, the sex block multiplies the mean by the entry of the
  sex key, else by the entry of \<^verbatim>\<open>other\<close>, else by 1, and leaves the sd alone.
\<close>

lemma sex_step_bare_number:
  assumes "ti_sex_adjustment ti = Some mults"
    and "\<forall>e \<in> snd ` set mults. \<exists>r. e = SexNum r"
  shows "sex_step mean sd ti sex_key =
     Inr (mean * (case map_of mults sex_key of
                    Some (SexNum r) \<Rightarrow> r
                  | _ \<Rightarrow> (case map_of mults ''other'' of Some (SexNum r) \<Rightarrow> r | _ \<Rightarrow> 1)), sd)"
proof -
  have num: "\<exists>r. e = SexNum r" if "map_of mults k = Some e" for k e
    using that assms(2) by (force dest: map_of_SomeD)
  show ?thesis
    using assms(1) num [of sex_key] num [of "''other''"]
    unfolding sex_step_def float_entry_def
    by (auto split: option.splits sex_entry.splits)
qed

text \<open>
  Claim C5 says that a structured entry under the sex key also multiplies the sd by its
  \<^verbatim>\<open>sd_multiplier\<close>. The source passes the looked-up entry to \<^verbatim>\<open>float\<close> first
  (line 89), which raises on a dictionary, so the sd line (92) is never reached with a
  structured entry: the call fails instead of returning the adjusted pair.
\<close>

theorem structured_sex_entry_raises:
  "apply_sex_age_lifestyle 100 10 structured_sex_test ''male'' 50 None
     = Inl (float_type_error ''dict'')"
  by code_simp

section \<open>Adjustment by age band\<close>


lemma age_bands_no_match:
  assumes "\<forall>b' \<in> set bands. \<not> (b_min_age b' \<le> of_int age \<and> of_int age \<le> b_max_age b')"
  shows "age_bands m s age bands = (m, s)"
  using assms by (induction bands) auto



section \<open>Lifestyle exceptions\<close>

lemma map_of_drop:
  "map_of (map (\<lambda>(fac, fi). (fac, fi \<lparr> f_exceptions := None \<rparr>)) lm) fac
     = map_option (\<lambda>fi. fi \<lparr> f_exceptions := None \<rparr>) (map_of lm fac)"
  by (induction lm) auto

lemma lifestyle_loop_drop:
  "lifestyle_loop m s (map (\<lambda>(fac, fi). (fac, fi \<lparr> f_exceptions := None \<rparr>)) lm) facs
     = lifestyle_loop m s lm facs"
proof (induction facs arbitrary: m s)
  case Nil
  show ?case by simp
next
  case (Cons fac facs)
  show ?case
    by (cases "map_of lm fac") (simp_all add: map_of_drop Cons)
qed

lemma lifestyle_step_drop:
  "lifestyle_step m s (drop_exceptions ti) lifestyle = lifestyle_step m s ti lifestyle"
proof (cases "ti_lifestyle ti")
  case None
  then show ?thesis
    by (simp add: lifestyle_step_def drop_exceptions_def split: option.splits list.splits)
next
  case (Some lm)
  then show ?thesis
    by (simp add: lifestyle_step_def drop_exceptions_def lifestyle_loop_drop
        del: lifestyle_loop.simps split: option.splits list.splits)
qed

lemma sex_step_drop: "sex_step m s (drop_exceptions ti) k = sex_step m s ti k"
  by (simp add: sex_step_def drop_exceptions_def)

lemma age_step_drop: "age_step m s (drop_exceptions ti) age = age_step m s ti age"
  by (simp add: age_step_def drop_exceptions_def)

lemma apply_drop:
  "apply_sex_age_lifestyle m s (drop_exceptions ti) sex age lifestyle
     = apply_sex_age_lifestyle m s ti sex age lifestyle"
  by (simp add: apply_sex_age_lifestyle_def sex_step_drop age_step_drop lifestyle_step_drop
      split: sum.splits prod.splits)

text \<open>
  Claim C9: the pair returned by \<^verbatim>\<open>apply_sex_age_lifestyle\<close> does not depend on the
  \<^verbatim>\<open>exceptions\<close> entries of the lifestyle factors: two tests that are equal once these
  entries are erased give the same result, error or pair, for every mean, sd, sex, age and
  lifestyle list.
\<close>

theorem exceptions_are_ignored:
  assumes "drop_exceptions t1 = drop_exceptions t2"
  shows "apply_sex_age_lifestyle mean sd t1 sex age lifestyle
       = apply_sex_age_lifestyle mean sd t2 sex age lifestyle"
  using assms apply_drop [of mean sd t1 sex age lifestyle]
    apply_drop [of mean sd t2 sex age lifestyle] by simp

theorem exceptions_are_ignored_witness:
  "smoker_with_exceptions \<noteq> smoker_plain
   \<and> apply_sex_age_lifestyle 100 10 smoker_with_exceptions ''male'' 50 (Some [''smoker''])
       = apply_sex_age_lifestyle 100 10 smoker_plain ''male'' 50 (Some [''smoker''])
   \<and> apply_sex_age_lifestyle 100 10 smoker_plain ''male'' 50 (Some [''smoker''])
       = Inr (110, 12)"
proof -
  have a: "drop_exceptions smoker_with_exceptions = drop_exceptions smoker_plain"
    by (simp add: drop_exceptions_def smoker_with_exceptions_def smoker_plain_def empty_test_info_def)
  have b: "smoker_with_exceptions \<noteq> smoker_plain"
    by (simp add: smoker_with_exceptions_def smoker_plain_def empty_test_info_def)
  have c: "apply_sex_age_lifestyle 100 10 smoker_plain ''male'' 50 (Some [''smoker''])
       = Inr (110, 12)"
    by code_simp
  show ?thesis
    using exceptions_are_ignored [OF a, of 100 10 "''male''" 50 "Some [''smoker'']"] b c
    by simp
qed

section \<open>Panel omission on a single panel\<close>

text \<open>
  Claim C10: on a condition with exactly one panel, when the omission branch is taken and
  the omission count drawn is 2, \<^verbatim>\<open>random.sample\<close> is asked for two of one panel and
  raises, so \<^verbatim>\<open>generate_lab_results\<close> fails.
\<close>

theorem single_panel_two_omissions_fail:
  assumes "map_of profiles_dict condition = Some [(panel, panel_tests)]"
    and "rs_random rs < missing_panel_prob"
    and "rs_choice_two rs"
  shows "generate_lab_results condition sex age lifestyle profiles_dict missing_panel_prob rs
    = Inl (ValueError ''Sample larger than population or is negative'')"
  using assms
  by (simp add: generate_lab_results_def lab_results_def choose_panels_to_skip_def
      random_sample_def)

theorem single_panel_two_omissions_fail_witness:
  "generate_lab_results ''Hypothyroidism'' ''female'' 60 (Some [''smoker'']) one_panel_profiles
     (14 / 100) two_omissions_source
   = Inl (ValueError ''Sample larger than population or is negative'')"
proof -
  have a: "map_of one_panel_profiles ''Hypothyroidism''
             = Some [(''TFT'', [(''TSH'', empty_test_info \<lparr> ti_mean := Some 8 \<rparr>)])]"
    by (simp add: one_panel_profiles_def)
  have b: "rs_random two_omissions_source < 14 / 100"
    by (simp add: two_omissions_source_def)
  have c: "rs_choice_two two_omissions_source"
    by (simp add: two_omissions_source_def)
  show ?thesis
    by (rule single_panel_two_omissions_fail [OF a b c])
qed

section \<open>The differential counts\<close>

lemma two_decimals_iff: "two_decimals x \<longleftrightarrow> (\<exists>k. x = of_int k / 100)"
proof
  assume "two_decimals x"
  then have "x = of_int \<lfloor>x * 100\<rfloor> / 100" by (rule two_decimalsD)
  then show "\<exists>k. x = of_int k / 100" by blast
next
  assume "\<exists>k. x = of_int k / 100"
  then obtain k where "x = of_int k / 100" by blast
  then show "two_decimals x" by (simp add: two_decimals_def)
qed

lemma two_decimals_add:
  assumes "two_decimals x" and "two_decimals y"
  shows "two_decimals (x + y)"
proof -
  obtain i j where "x = of_int i / 100" "y = of_int j / 100"
    using assms two_decimals_iff by blast
  then have "x + y = of_int (i + j) / 100" by (simp add: add_divide_distrib)
  then show ?thesis using two_decimals_iff by blast
qed

lemma two_decimals_diff:
  assumes "two_decimals x" and "two_decimals y"
  shows "two_decimals (x - y)"
proof -
  obtain i j where "x = of_int i / 100" "y = of_int j / 100"
    using assms two_decimals_iff by blast
  then have "x - y = of_int (i - j) / 100" by (simp add: diff_divide_distrib)
  then show ?thesis using two_decimals_iff by blast
qed

lemma two_decimals_sum_list:
  "(\<forall>x \<in> set xs. two_decimals x) \<Longrightarrow> two_decimals (sum_list xs)"
proof (induction xs)
  case Nil
  show ?case by (simp add: two_decimals_def)
next
  case (Cons x xs)
  then show ?case by (simp add: two_decimals_add)
qed

lemma round2_id:
  assumes "two_decimals x"
  shows "round2 x = x"
proof -
  obtain k where k: "x = of_int k / 100" using assms two_decimals_iff by blast
  show ?thesis unfolding k by (rule round2_hundredth)
qed

lemma two_decimals_small:
  assumes "two_decimals x" and "\<bar>x\<bar> < 1 / 100"
  shows "x = 0"
proof -
  obtain k where k: "x = of_int k / 100" using assms(1) two_decimals_iff by blast
  with assms(2) have "\<bar>(of_int k :: rat)\<bar> < 1" by (simp add: abs_less_iff field_simps)
  then have "\<bar>k\<bar> < 1" by (metis of_int_abs of_int_less_1_iff)
  then show ?thesis using k by simp
qed

lemma argmax_from_bound:
  "best_i < i \<Longrightarrow> argmax_from xs i best_i best < i + length xs"
  by (induction xs i best_i best rule: argmax_from.induct) auto

lemma argmax_less: "xs \<noteq> [] \<Longrightarrow> argmax xs < length xs"
  using argmax_from_bound [of 0 1] by (cases xs) (auto simp: argmax_def)

lemma sum_list_upd:
  "i < length xs \<Longrightarrow> sum_list (xs[i := v]) = sum_list xs - xs ! i + (v :: rat)"
proof (induction xs arbitrary: i)
  case Nil
  then show ?case by simp
next
  case (Cons x xs)
  then show ?case by (cases i) simp_all
qed

lemma length_reconcile_counts: "length (reconcile_counts ps tot) = length ps"
  by (simp add: reconcile_counts_def Let_def)

lemma reconcile_counts_close:
  assumes "ps \<noteq> []"
  shows "\<bar>tot - sum_list (reconcile_counts ps tot)\<bar> \<le> 1 / 200"
proof -
  define abs_counts where "abs_counts = map (\<lambda>p. round2 (p * tot)) ps"
  define diff where "diff = round2 (tot - sum_list abs_counts)"
  have all2: "\<forall>x \<in> set abs_counts. two_decimals x"
    by (auto simp: abs_counts_def two_decimals_round2)
  have sum2: "two_decimals (sum_list abs_counts)"
    by (rule two_decimals_sum_list [OF all2])
  have diff2: "two_decimals diff"
    by (simp add: diff_def two_decimals_round2)
  have close: "\<bar>diff - (tot - sum_list abs_counts)\<bar> \<le> 1 / 200"
    unfolding diff_def by (rule round2_close)
  have ne: "abs_counts \<noteq> []"
    using assms by (simp add: abs_counts_def)
  show ?thesis
  proof (cases "1 / 100 \<le> \<bar>diff\<bar>")
    case True
    define idx where "idx = argmax abs_counts"
    have idx: "idx < length abs_counts"
      unfolding idx_def by (rule argmax_less [OF ne])
    then have "two_decimals (abs_counts ! idx)"
      using all2 by simp
    then have "round2 (abs_counts ! idx + diff) = abs_counts ! idx + diff"
      using diff2 by (simp add: round2_id two_decimals_add)
    then have "sum_list (abs_counts[idx := round2 (abs_counts ! idx + diff)])
        = sum_list abs_counts + diff"
      using idx by (simp add: sum_list_upd)
    moreover have "reconcile_counts ps tot
        = abs_counts[idx := round2 (abs_counts ! idx + diff)]"
      using True
      by (simp add: reconcile_counts_def Let_def abs_counts_def [symmetric]
          diff_def [symmetric] idx_def [symmetric])
    ultimately have "tot - sum_list (reconcile_counts ps tot)
        = - (diff - (tot - sum_list abs_counts))"
      by simp
    then show ?thesis
      using close by (simp only: abs_minus)
  next
    case False
    then have "diff = 0"
      using diff2 two_decimals_small by simp
    moreover have "reconcile_counts ps tot = abs_counts"
      using False
      by (simp add: reconcile_counts_def Let_def abs_counts_def [symmetric]
          diff_def [symmetric])
    ultimately have "tot - sum_list (reconcile_counts ps tot)
        = - (diff - (tot - sum_list abs_counts))"
      by simp
    then show ?thesis
      using close by (simp only: abs_minus)
  qed
qed

lemma upt5: "[0..<5] = [0, 1, 2, 3, 4]"
  by code_simp

lemma length_base_props: "length (base_props_of fbc_vals) = 5"
  by (simp add: base_props_of_def default_props_def Let_def split: option.splits pval.splits)

lemma dirichlet_five:
  assumes "dirichlet (map (\<lambda>p. p * 50) (base_props_of fbc_vals)) outcome = Inr ps"
  shows "ps = [outcome 0, outcome 1, outcome 2, outcome 3, outcome 4]"
  using assms by (simp add: dirichlet_def length_base_props upt5 split: if_splits)

lemma list5:
  assumes "length (cs :: 'a list) = 5"
  shows "\<exists>c0 c1 c2 c3 c4. cs = [c0, c1, c2, c3, c4]"
proof -
  from assms obtain c0 r0 where 0: "cs = c0 # r0" "length r0 = 4"
    by (cases cs) auto
  then obtain c1 r1 where 1: "r0 = c1 # r1" "length r1 = 3"
    by (cases r0) auto
  then obtain c2 r2 where 2: "r1 = c2 # r2" "length r2 = 2"
    by (cases r1) auto
  then obtain c3 r3 where 3: "r2 = c3 # r3" "length r3 = 1"
    by (cases r2) auto
  then obtain c4 where 4: "r3 = [c4]"
    by (cases r3) auto
  show ?thesis using 0 1 2 3 4 by blast
qed

lemma diff_keys_distinct: "distinct diff_keys"
  by code_simp

lemma store_lookup_abs:
  "map (\<lambda>n. map_of (store_differential
       (zip diff_names (zip [p0, p1, p2, p3, p4] [c0, c1, c2, c3, c4])) fbc_vals) (abs_key n))
     diff_names
   = map (\<lambda>c. Some (PNum c)) [c0, c1, c2, c3, c4]"
  by (simp add: diff_names_def update_conv' abs_key_def pct_key_def times_sign_def)


lemma find_update:
  "\<not> P k \<Longrightarrow> find P (map fst (AList.update k v al)) = find P (map fst al)"
  by (induction al) auto

lemma find_delete:
  "\<not> P k \<Longrightarrow> find P (map fst (AList.delete k al)) = find P (map fst al)"
  by (induction al) auto

lemma pct_key_in: "n \<in> set diff_names \<Longrightarrow> pct_key n \<in> set diff_keys"
  by (auto simp: diff_keys_def)

lemma abs_key_in: "n \<in> set diff_names \<Longrightarrow> abs_key n \<in> set diff_keys"
  by (auto simp: diff_keys_def)

lemma null_differential_map_of:
  assumes "set ns \<subseteq> set diff_names" and "t \<notin> set diff_keys"
  shows "map_of (null_differential ns al) t = map_of al t"
  using assms
proof (induction ns arbitrary: al)
  case Nil
  show ?case by simp
next
  case (Cons n ns)
  then have "t \<noteq> pct_key n" "t \<noteq> abs_key n"
    using pct_key_in abs_key_in by auto
  then show ?case using Cons by (simp add: update_conv')
qed

lemma null_differential_find:
  assumes "set ns \<subseteq> set diff_names" and "\<forall>k \<in> set diff_keys. \<not> P k"
  shows "find P (map fst (null_differential ns al)) = find P (map fst al)"
  using assms
proof (induction ns arbitrary: al)
  case Nil
  show ?case by simp
next
  case (Cons n ns)
  then have "\<not> P (pct_key n)" "\<not> P (abs_key n)"
    using pct_key_in abs_key_in by auto
  then show ?case using Cons by (simp add: find_update)
qed

lemma store_differential_map_of:
  assumes "fst ` set xs \<subseteq> set diff_names" and "t \<notin> set diff_keys"
  shows "map_of (store_differential xs al) t = map_of al t"
  using assms
proof (induction xs arbitrary: al)
  case Nil
  show ?case by simp
next
  case (Cons x xs)
  obtain n p c where x: "x = (n, p, c)" by (cases x) auto
  with Cons.prems have "t \<noteq> pct_key n" "t \<noteq> abs_key n"
    using pct_key_in abs_key_in by auto
  then show ?case using Cons x by (simp add: update_conv')
qed

lemma store_differential_find:
  assumes "fst ` set xs \<subseteq> set diff_names" and "\<forall>k \<in> set diff_keys. \<not> P k"
  shows "find P (map fst (store_differential xs al)) = find P (map fst al)"
  using assms
proof (induction xs arbitrary: al)
  case Nil
  show ?case by simp
next
  case (Cons x xs)
  obtain n p c where x: "x = (n, p, c)" by (cases x) auto
  with Cons.prems have "\<not> P (pct_key n)" "\<not> P (abs_key n)"
    using pct_key_in abs_key_in by auto
  then show ?case using Cons x by (simp add: find_update)
qed

lemma zip_names_subset: "fst ` set (zip diff_names ys) \<subseteq> set diff_names"
  by (auto dest: set_zip_leftD)

text \<open>The two outcomes of the differential on a panel's dictionary.\<close>

lemma differential_cases:
  assumes "differential fbc_vals outcome = Inr fbc_vals'"
  shows "(fbc_vals' = null_differential diff_names fbc_vals
          \<and> (find_wbc_key fbc_vals = None
              \<or> (\<exists>k. find_wbc_key fbc_vals = Some k
                    \<and> (map_of fbc_vals k = None \<or> map_of fbc_vals k = Some PNone))))
    \<or> (\<exists>k tot ps. find_wbc_key fbc_vals = Some k \<and> map_of fbc_vals k = Some (PNum tot)
          \<and> length ps = 5
          \<and> fbc_vals' = AList.delete ''differential_props''
               (store_differential
                  (zip diff_names (zip ps (reconcile_counts ps tot))) fbc_vals))"
proof (cases "find_wbc_key fbc_vals")
  case None
  then show ?thesis using assms by (simp add: differential_def)
next
  case (Some k)
  show ?thesis
  proof (cases "map_of fbc_vals k")
    case None
    then show ?thesis using assms Some by (simp add: differential_def)
  next
    case (Some v)
    note v = this
    show ?thesis
    proof (cases v)
      case (PNum tot)
      from assms \<open>find_wbc_key fbc_vals = Some k\<close> v PNum
      obtain ps where ps: "dirichlet (map (\<lambda>p. p * 50) (base_props_of fbc_vals)) outcome = Inr ps"
        and eq: "fbc_vals' = AList.delete ''differential_props''
               (store_differential
                  (zip diff_names (zip ps (reconcile_counts ps tot))) fbc_vals)"
        by (auto simp: differential_def Let_def split: sum.splits)
      have "length ps = 5"
        using dirichlet_five [OF ps] by simp
      then show ?thesis
        using \<open>find_wbc_key fbc_vals = Some k\<close> v PNum eq by blast
    next
      case PNone
      then show ?thesis
        using assms \<open>find_wbc_key fbc_vals = Some k\<close> v by (simp add: differential_def)
    next
      case (PMeta ti)
      then show ?thesis
        using assms \<open>find_wbc_key fbc_vals = Some k\<close> v by (simp add: differential_def)
    qed
  qed
qed

lemma differential_map_of:
  assumes "differential fbc_vals outcome = Inr fbc_vals'"
    and "t \<notin> set diff_keys" and "t \<noteq> ''differential_props''"
  shows "map_of fbc_vals' t = map_of fbc_vals t"
  using differential_cases [OF assms(1)] assms(2,3)
  by (auto simp: null_differential_map_of store_differential_map_of zip_names_subset
      delete_conv')

lemma differential_find:
  assumes "differential fbc_vals outcome = Inr fbc_vals'"
    and "\<forall>k \<in> set diff_keys. \<not> P k" and "\<not> P ''differential_props''"
  shows "find P (map fst fbc_vals') = find P (map fst fbc_vals)"
  using differential_cases [OF assms(1)] assms(2,3)
  by (auto simp: null_differential_find store_differential_find zip_names_subset find_delete)


lemma wbc_not_in_diff_keys: "\<forall>k \<in> set diff_keys. \<not> str_in ''wbc'' (lower k)"
  by code_simp

lemma wbc_not_in_props: "\<not> str_in ''wbc'' (lower ''differential_props'')"
  by code_simp

lemma candidates_not_diff_keys:
  "\<forall>c \<in> set wbc_candidates. c \<notin> set diff_keys \<and> c \<noteq> ''differential_props''"
  by code_simp

lemma find_wbc_key_is_wbc:
  assumes "find_wbc_key al = Some k"
  shows "k \<notin> set diff_keys \<and> k \<noteq> ''differential_props''"
proof (cases "find (\<lambda>cand. map_of al cand \<noteq> None) wbc_candidates")
  case None
  with assms have "find (\<lambda>k. str_in ''wbc'' (lower k)) (map fst al) = Some k"
    by (simp add: find_wbc_key_def)
  then have "str_in ''wbc'' (lower k)"
    by (auto simp: find_Some_iff)
  then show ?thesis
    using wbc_not_in_diff_keys wbc_not_in_props by blast
next
  case (Some c)
  with assms have "c = k" by (simp add: find_wbc_key_def)
  moreover from Some have "c \<in> set wbc_candidates"
    by (auto simp: find_Some_iff)
  ultimately show ?thesis using candidates_not_diff_keys by blast
qed

lemma find_wbc_key_differential:
  assumes "differential al outcome = Inr al'"
  shows "find_wbc_key al' = find_wbc_key al"
proof -
  have "find (\<lambda>cand. map_of al' cand \<noteq> None) wbc_candidates
      = find (\<lambda>cand. map_of al cand \<noteq> None) wbc_candidates"
    using candidates_not_diff_keys
    by (intro find_cong) (auto simp: differential_map_of [OF assms])
  moreover have "find (\<lambda>k. str_in ''wbc'' (lower k)) (map fst al')
      = find (\<lambda>k. str_in ''wbc'' (lower k)) (map fst al)"
    by (rule differential_find [OF assms wbc_not_in_diff_keys wbc_not_in_props])
  ultimately show ?thesis by (simp add: find_wbc_key_def split: option.splits)
qed

lemma abs_key_not_props: "n \<in> set diff_names \<Longrightarrow> abs_key n \<noteq> ''differential_props''"
  by (auto simp: diff_names_def abs_key_def times_sign_def)

text \<open>
  In the exact arithmetic of the model, the counts the differential stores in the panel's
  dictionary sum to the located total within 0.005.
\<close>

lemma differential_counts:
  assumes "differential al outcome = Inr al'"
    and "find_wbc_key al' = Some k" and "map_of al' k = Some (PNum tot)"
  shows "\<exists>cs. map (\<lambda>n. map_of al' (abs_key n)) diff_names = map (\<lambda>c. Some (PNum c)) cs
           \<and> \<bar>tot - sum_list cs\<bar> \<le> 1 / 200"
proof -
  have k: "find_wbc_key al = Some k"
    using assms(2) find_wbc_key_differential [OF assms(1)] by simp
  have "k \<notin> set diff_keys \<and> k \<noteq> ''differential_props''"
    by (rule find_wbc_key_is_wbc [OF k])
  then have v: "map_of al k = Some (PNum tot)"
    using assms(3) differential_map_of [OF assms(1), of k] by simp
  from differential_cases [OF assms(1)] k v
  obtain ps where ps: "length ps = 5"
    and eq: "al' = AList.delete ''differential_props''
               (store_differential (zip diff_names (zip ps (reconcile_counts ps tot))) al)"
    by auto
  define cs where "cs = reconcile_counts ps tot"
  have len: "length cs = 5"
    by (simp add: cs_def length_reconcile_counts ps)
  have close: "\<bar>tot - sum_list cs\<bar> \<le> 1 / 200"
    unfolding cs_def using ps by (intro reconcile_counts_close) auto
  obtain p0 p1 p2 p3 p4 where p5: "ps = [p0, p1, p2, p3, p4]"
    using list5 [OF ps] by blast
  obtain c0 c1 c2 c3 c4 where c5: "cs = [c0, c1, c2, c3, c4]"
    using list5 [OF len] by blast
  have "map (\<lambda>n. map_of al' (abs_key n)) diff_names
      = map (\<lambda>n. map_of (store_differential (zip diff_names (zip ps cs)) al) (abs_key n))
          diff_names"
    unfolding eq cs_def by (rule map_cong) (simp_all add: delete_conv' abs_key_not_props)
  also have "\<dots> = map (\<lambda>c. Some (PNum c)) cs"
    unfolding p5 c5 by (rule store_lookup_abs)
  finally show ?thesis using close by blast
qed

lemma add_differential_panel:
  assumes "add_differential (Some fbc) results0 outcome = Inr results"
    and "map_of results fbc = Some (Some fbc_vals)"
  shows "\<exists>al. map_of results0 fbc = Some (Some al) \<and> differential al outcome = Inr fbc_vals
           \<and> results = AList.update fbc (Some fbc_vals) results0"
  using assms
  by (auto simp: add_differential_def update_conv' split: option.splits sum.splits)

lemma lab_results_stages:
  assumes "lab_results condition sex age lifestyle profiles_dict missing_panel_prob rs
             = Inr (profile, fbc_panel, results)"
  shows "\<exists>panels_to_skip results0 shared_values n.
           map_of profiles_dict condition = Some profile
         \<and> choose_panels_to_skip (map fst profile) missing_panel_prob rs = Inr panels_to_skip
         \<and> sample_panels sex age (case lifestyle of None \<Rightarrow> [] | Some l \<Rightarrow> l) (rs_np rs)
              panels_to_skip profile ([], [], 0) = Inr (results0, shared_values, n)
         \<and> fbc_panel = find_fbc_panel (map fst profile)
         \<and> add_differential fbc_panel results0 (rs_dirichlet rs) = Inr results"
  using assms
  by (auto simp: lab_results_def Let_def split: option.splits sum.splits)

section \<open>The invariant of the sampling pass\<close>

lemma shared_in_mono:
  assumes "shared_in sh vs" and "map_of sh \<subseteq>\<^sub>m map_of sh'"
  shows "shared_in sh' vs"
  unfolding shared_in_def
proof (intro allI impI)
  fix t v
  assume "map_of vs t = Some v" and "t \<noteq> ''differential_props''"
  with assms(1) obtain x where x: "v = PNum x" "map_of sh t = Some x"
    unfolding shared_in_def by blast
  then have "map_of sh' t = Some x"
    using assms(2) by (auto simp: map_le_def dom_def)
  with x show "\<exists>x. v = PNum x \<and> map_of sh' t = Some x" by blast
qed

lemma sample_tests_step:
  assumes "sample_tests sex age ls np ((tn, ti) # rest) (out, sh, n) = Inr r"
  shows "\<exists>out1 sh1 n1. sample_tests sex age ls np rest (out1, sh1, n1) = Inr r
    \<and> ((tn = ''differential_props'' \<and> out1 = AList.update tn (PMeta ti) out
          \<and> sh1 = sh \<and> n1 = n)
       \<or> (tn \<noteq> ''differential_props''
          \<and> (\<exists>val. out1 = AList.update tn (PNum val) out
                \<and> ((map_of sh tn = Some val \<and> sh1 = sh \<and> n1 = n)
                   \<or> (map_of sh tn = None \<and> sh1 = AList.update tn val sh \<and> n1 = Suc n)))))"
proof (cases "tn = ''differential_props''")
  case True
  then show ?thesis using assms by simp
next
  case False
  from assms False obtain bm where bm: "ti_mean ti = Some bm"
    by (cases "ti_mean ti") auto
  from assms False bm obtain am asd
    where ap: "apply_sex_age_lifestyle bm (base_sd_of ti bm) ti sex age (Some ls) = Inr (am, asd)"
    by (cases "apply_sex_age_lifestyle bm (base_sd_of ti bm) ti sex age (Some ls)") auto
  show ?thesis
  proof (cases "map_of sh tn")
    case (Some val)
    then show ?thesis using assms False bm ap by auto
  next
    case None
    from assms False bm ap None obtain val
      where "sample_value (tmp_params ti am asd) (np n) = Inr val"
      by (cases "sample_value (tmp_params ti am asd) (np n)") auto
    then show ?thesis using assms False bm ap None by auto
  qed
qed

lemma shared_in_update_meta:
  assumes "shared_in sh out"
  shows "shared_in sh (AList.update ''differential_props'' v out)"
  using assms by (simp add: shared_in_def update_conv')

lemma shared_in_update_hit:
  assumes "shared_in sh out" and "map_of sh tn = Some val"
  shows "shared_in sh (AList.update tn (PNum val) out)"
  using assms by (simp add: shared_in_def update_conv')

lemma shared_in_update_new:
  assumes "shared_in sh out" and "map_of sh tn = None"
  shows "shared_in (AList.update tn val sh) (AList.update tn (PNum val) out)"
  using assms by (auto simp: shared_in_def update_conv')

lemma map_le_update_new:
  "map_of sh tn = None \<Longrightarrow> map_of sh \<subseteq>\<^sub>m map_of (AList.update tn val sh)"
  by (auto simp: map_le_def update_conv' dom_def)

lemma sample_tests_inv:
  assumes "sample_tests sex age ls np tests (out, sh, n) = Inr (out', sh', n')"
    and "shared_in sh out" and "distinct (map fst out)"
  shows "shared_in sh' out' \<and> distinct (map fst out') \<and> map_of sh \<subseteq>\<^sub>m map_of sh'"
  using assms
proof (induction tests arbitrary: out sh n)
  case Nil
  then show ?case by simp
next
  case (Cons x rest)
  obtain tn ti where x: "x = (tn, ti)" by (cases x) auto
  from sample_tests_step [OF Cons.prems(1) [unfolded x]]
  obtain out1 sh1 n1 where rec: "sample_tests sex age ls np rest (out1, sh1, n1) = Inr (out', sh', n')"
    and step: "(tn = ''differential_props'' \<and> out1 = AList.update tn (PMeta ti) out
          \<and> sh1 = sh \<and> n1 = n)
       \<or> (tn \<noteq> ''differential_props''
          \<and> (\<exists>val. out1 = AList.update tn (PNum val) out
                \<and> ((map_of sh tn = Some val \<and> sh1 = sh \<and> n1 = n)
                   \<or> (map_of sh tn = None \<and> sh1 = AList.update tn val sh \<and> n1 = Suc n))))"
    by blast
  have d1: "distinct (map fst out1)"
    using step Cons.prems(3) by (auto simp: distinct_update)
  have s1: "shared_in sh1 out1"
    using step Cons.prems(2)
    by (auto simp: shared_in_update_meta shared_in_update_hit shared_in_update_new)
  have le1: "map_of sh \<subseteq>\<^sub>m map_of sh1"
    using step by (auto simp: map_le_update_new)
  from Cons.IH [OF rec s1 d1] le1 show ?case
    by (auto intro: map_le_trans)
qed

lemma sample_panels_step:
  assumes "sample_panels sex age ls np skips ((p, tests) # rest) (res, sh, n) = Inr r"
  shows "\<exists>res1 sh1 n1. sample_panels sex age ls np skips rest (res1, sh1, n1) = Inr r
    \<and> ((p \<in> set skips \<and> res1 = AList.update p None res \<and> sh1 = sh \<and> n1 = n)
       \<or> (p \<notin> set skips
          \<and> (\<exists>out. sample_tests sex age ls np tests ([], sh, n) = Inr (out, sh1, n1)
                \<and> res1 = AList.update p (Some out) res)))"
proof (cases "p \<in> set skips")
  case True
  then show ?thesis using assms by simp
next
  case False
  from assms False obtain out sh1 n1
    where "sample_tests sex age ls np tests ([], sh, n) = Inr (out, sh1, n1)"
    by (cases "sample_tests sex age ls np tests ([], sh, n)") auto
  then show ?thesis using assms False by auto
qed

lemma results_ok_mono:
  assumes "results_ok sh res" and "map_of sh \<subseteq>\<^sub>m map_of sh'"
  shows "results_ok sh' res"
  using assms shared_in_mono unfolding results_ok_def by blast

lemma results_ok_update_None:
  assumes "results_ok sh res"
  shows "results_ok sh (AList.update p None res)"
  using assms by (auto simp: results_ok_def distinct_update update_conv' split: if_splits)

lemma results_ok_update_Some:
  assumes "results_ok sh res" and "shared_in sh out" and "distinct (map fst out)"
  shows "results_ok sh (AList.update p (Some out) res)"
  using assms by (auto simp: results_ok_def distinct_update update_conv' split: if_splits)

lemma shared_in_empty: "shared_in sh []"
  by (simp add: shared_in_def)

lemma update_keys_subset: "fst ` set (AList.update k v al) \<subseteq> insert k (fst ` set al)"
  by (induction al) auto

lemma sample_panels_inv:
  assumes "sample_panels sex age ls np skips prof (res, sh, n) = Inr (res', sh', n')"
    and "results_ok sh res"
  shows "results_ok sh' res' \<and> fst ` set res' \<subseteq> fst ` set res \<union> fst ` set prof"
  using assms
proof (induction prof arbitrary: res sh n)
  case Nil
  then show ?case by simp
next
  case (Cons x rest)
  obtain p tests where x: "x = (p, tests)" by (cases x) auto
  from sample_panels_step [OF Cons.prems(1) [unfolded x]]
  obtain res1 sh1 n1
    where rec: "sample_panels sex age ls np skips rest (res1, sh1, n1) = Inr (res', sh', n')"
    and step: "(p \<in> set skips \<and> res1 = AList.update p None res \<and> sh1 = sh \<and> n1 = n)
       \<or> (p \<notin> set skips
          \<and> (\<exists>out. sample_tests sex age ls np tests ([], sh, n) = Inr (out, sh1, n1)
                \<and> res1 = AList.update p (Some out) res))"
    by blast
  have ok1: "results_ok sh1 res1"
  proof (cases "p \<in> set skips")
    case True
    then show ?thesis using step Cons.prems(2) by (auto simp: results_ok_update_None)
  next
    case False
    with step obtain out
      where st: "sample_tests sex age ls np tests ([], sh, n) = Inr (out, sh1, n1)"
        and r1: "res1 = AList.update p (Some out) res"
      by blast
    from sample_tests_inv [OF st shared_in_empty]
    have "shared_in sh1 out" "distinct (map fst out)" "map_of sh \<subseteq>\<^sub>m map_of sh1"
      by simp_all
    then show ?thesis
      using r1 results_ok_update_Some results_ok_mono [OF Cons.prems(2)] by blast
  qed
  from step obtain v where "res1 = AList.update p v res"
    by blast
  then have keys: "fst ` set res1 \<subseteq> insert p (fst ` set res)"
    by (simp add: update_keys_subset)
  have ih: "results_ok sh' res'" "fst ` set res' \<subseteq> fst ` set res1 \<union> fst ` set rest"
    using Cons.IH [OF rec ok1] by simp_all
  have "fst ` set res' \<subseteq> fst ` set res \<union> insert p (fst ` set rest)"
    using ih(2) keys by blast
  then show ?case
    using ih(1) x by simp
qed


lemma null_differential_distinct:
  "distinct (map fst al) \<Longrightarrow> distinct (map fst (null_differential ns al))"
  by (induction ns arbitrary: al) (simp_all add: distinct_update)

lemma store_differential_distinct:
  "distinct (map fst al) \<Longrightarrow> distinct (map fst (store_differential xs al))"
proof (induction xs arbitrary: al)
  case Nil
  then show ?case by simp
next
  case (Cons x xs)
  obtain n p c where "x = (n, p, c)" by (cases x) auto
  then show ?case using Cons by (simp add: distinct_update)
qed

lemma differential_distinct:
  assumes "differential al outcome = Inr al'" and "distinct (map fst al)"
  shows "distinct (map fst al')"
  using differential_cases [OF assms(1)] assms(2)
  by (auto simp: null_differential_distinct store_differential_distinct distinct_delete)

text \<open>What the differential leaves of the sampled results.\<close>

lemma add_differential_frame:
  assumes "add_differential fbc_panel res0 outcome = Inr res"
    and "distinct (map fst res0)"
    and "map_of res q = Some (Some vs)"
  shows "distinct (map fst res) \<and> fst ` set res \<subseteq> fst ` set res0
    \<and> (\<exists>vs0. map_of res0 q = Some (Some vs0)
          \<and> (fbc_panel \<noteq> Some q \<longrightarrow> vs = vs0)
          \<and> (\<forall>t. t \<notin> set diff_keys \<longrightarrow> t \<noteq> ''differential_props''
                 \<longrightarrow> map_of vs t = map_of vs0 t)
          \<and> (distinct (map fst vs0) \<longrightarrow> distinct (map fst vs)))"
proof (cases "\<exists>fbc al. fbc_panel = Some fbc \<and> map_of res0 fbc = Some (Some al)")
  case False
  then have "res = res0"
    using assms(1) by (auto simp: add_differential_def split: option.splits)
  then show ?thesis using assms(2,3) by simp
next
  case True
  then obtain fbc al where fbc: "fbc_panel = Some fbc" and al: "map_of res0 fbc = Some (Some al)"
    by blast
  from assms(1) fbc al obtain al' where d: "differential al outcome = Inr al'"
    and res: "res = AList.update fbc (Some al') res0"
    by (auto simp: add_differential_def split: sum.splits)
  have "fbc \<in> fst ` set res0"
    using al by (force dest: map_of_SomeD)
  then have keys: "fst ` set res \<subseteq> fst ` set res0"
    using update_keys_subset [of fbc "Some al'" res0] res by auto
  have dist: "distinct (map fst res)"
    using res assms(2) by (simp add: distinct_update)
  show ?thesis
  proof (cases "q = fbc")
    case True
    then have "vs = al'" using assms(3) res by (simp add: update_conv')
    then show ?thesis
      using True al dist keys fbc differential_map_of [OF d] differential_distinct [OF d]
      by auto
  next
    case False
    then have "map_of res0 q = Some (Some vs)"
      using assms(3) res by (simp add: update_conv')
    then show ?thesis using False dist keys fbc by auto
  qed
qed

lemma results_ok_empty: "results_ok [] []"
  by (simp add: results_ok_def)

lemma lab_results_inv:
  assumes "lab_results condition sex age lifestyle profiles_dict missing_panel_prob rs
             = Inr (profile, fbc_panel, results)"
  shows "\<exists>res0 sh. results_ok sh res0 \<and> fst ` set res0 \<subseteq> fst ` set profile
           \<and> add_differential fbc_panel res0 (rs_dirichlet rs) = Inr results"
proof -
  from lab_results_stages [OF assms] obtain skips res0 sh n
    where sp: "sample_panels sex age (case lifestyle of None \<Rightarrow> [] | Some l \<Rightarrow> l) (rs_np rs)
              skips profile ([], [], 0) = Inr (res0, sh, n)"
      and ad: "add_differential fbc_panel res0 (rs_dirichlet rs) = Inr results"
    by blast
  from sample_panels_inv [OF sp results_ok_empty]
  have "results_ok sh res0" "fst ` set res0 \<subseteq> fst ` set profile"
    by simp_all
  then show ?thesis using ad by blast
qed

text \<open>
  In the results of a run, two sampled panels hold the same number under a test name they
  share, unless the differential has written under that name in one of them.
\<close>

lemma lab_results_shared:
  assumes "lab_results condition sex age lifestyle profiles_dict missing_panel_prob rs
             = Inr (profile, fbc_panel, results)"
    and "map_of results p1 = Some (Some vs1)" and "map_of results p2 = Some (Some vs2)"
    and "map_of vs1 t = Some v1" and "map_of vs2 t = Some v2"
    and "t \<noteq> ''differential_props''"
    and "t \<in> set diff_keys \<longrightarrow> fbc_panel \<noteq> Some p1 \<and> fbc_panel \<noteq> Some p2"
  shows "v1 = v2 \<and> (\<exists>x. v1 = PNum x)"
proof -
  from lab_results_inv [OF assms(1)] obtain res0 sh
    where ok: "results_ok sh res0"
      and ad: "add_differential fbc_panel res0 (rs_dirichlet rs) = Inr results"
    by blast
  have dist: "distinct (map fst res0)"
    using ok by (simp add: results_ok_def)
  have val: "\<exists>x. v = PNum x \<and> map_of sh t = Some x"
    if "map_of results p = Some (Some vs)" and "map_of vs t = Some v"
      and "t \<in> set diff_keys \<longrightarrow> fbc_panel \<noteq> Some p" for p vs v
  proof -
    from add_differential_frame [OF ad dist that(1)] obtain vs0
      where 0: "map_of res0 p = Some (Some vs0)"
        and same: "fbc_panel \<noteq> Some p \<longrightarrow> vs = vs0"
        and frame: "\<forall>t. t \<notin> set diff_keys \<longrightarrow> t \<noteq> ''differential_props''
                 \<longrightarrow> map_of vs t = map_of vs0 t"
      by blast
    have "map_of vs0 t = Some v"
      using that(2,3) same frame assms(6) by (cases "t \<in> set diff_keys") auto
    moreover have "shared_in sh vs0"
      using ok 0 by (simp add: results_ok_def)
    ultimately show ?thesis
      using assms(6) by (simp add: shared_in_def)
  qed
  from val [OF assms(2,4)] val [OF assms(3,5)] assms(7) show ?thesis
    by auto
qed

section \<open>The differential counts in the row\<close>

text \<open>
  Claim C2 says that in every row with a sampled full blood count panel and a total
  count, the five differential absolute counts sum to the total within 0.01; the comment
  in the source before the differential says the same (\<^verbatim>\<open>so absolute counts sum to WBC\<close>).
  The differential stores counts with that sum in the panel's dictionary, and the row is
  then filled under the names \<^verbatim>\<open>panel - test\<close>, which two tests of two panels can share.
  Here the panels are \<^verbatim>\<open>Haem - FBC\<close>, the full blood count, and \<^verbatim>\<open>Haem\<close>, whose only test
  is named \<^verbatim>\<open>FBC - Neutrophils\<close> followed by the unit of the counts. The differential stores
  2.34, 2.33, 1.17, 0.58 and 0.58 for a total of 7, the rounded counts 2.33, 2.33, 1.17,
  0.58, 0.58 with the residual 0.01 added to the first largest. The later panel then writes
  its sampled 99 into the column of the first count: the five counts of the row are 99,
  2.33, 1.17, 0.58 and 0.58 against a total of 7.
\<close>

theorem differential_counts_overwritten_in_row:
  "lab_results ''Sepsis'' ''male'' 50 None [(''Sepsis'', collision_profile)] (14 / 100)
     collision_source
   = Inr (collision_profile, Some ''Haem - FBC'',
       [(''Haem - FBC'',
          Some [(''WBC'', PNum 7),
                (pct_key ''Neutrophils'', PNum (3333 / 100)),
                (abs_key ''Neutrophils'', PNum (234 / 100)),
                (pct_key ''Lymphocytes'', PNum (3333 / 100)),
                (abs_key ''Lymphocytes'', PNum (233 / 100)),
                (pct_key ''Monocytes'', PNum (1667 / 100)),
                (abs_key ''Monocytes'', PNum (117 / 100)),
                (pct_key ''Eosinophils'', PNum (833 / 100)),
                (abs_key ''Eosinophils'', PNum (58 / 100)),
                (pct_key ''Basophils'', PNum (833 / 100)),
                (abs_key ''Basophils'', PNum (58 / 100))]),
        (''Haem'', Some [(''FBC - Neutrophils ('' @ times_sign @ ''10^9/L)'', PNum 99)])])
   \<and> map (\<lambda>n. cell_of (generate_lab_results ''Sepsis'' ''male'' 50 None
                           [(''Sepsis'', collision_profile)] (14 / 100) collision_source)
                  (column ''Haem - FBC'' (abs_key n))) diff_names
       = map (\<lambda>c. Some (CVal (PNum c))) [99, 233 / 100, 117 / 100, 58 / 100, 58 / 100]
   \<and> cell_of (generate_lab_results ''Sepsis'' ''male'' 50 None
                [(''Sepsis'', collision_profile)] (14 / 100) collision_source)
        (column ''Haem - FBC'' ''WBC'') = Some (CVal (PNum 7))
   \<and> \<not> \<bar>7 - sum_list [99, 233 / 100, 117 / 100, 58 / 100, 58 / 100 :: rat]\<bar> \<le> 1 / 100"
  by code_simp

section \<open>Values shared between panels\<close>

text \<open>
  Claim C3 says that a test name occurring in several sampled panels is sampled at most
  once and has the same value at all its locations in the row; the comments in the source
  say the same (\<^verbatim>\<open>same test name reused across panels\<close>,
  \<^verbatim>\<open>If test already sampled elsewhere, reuse\<close>). The sampling pass does so: here
  \<^verbatim>\<open>Neutrophils (%)\<close> is a test of both panels, the pass makes two draws for the three
  tests and both panels get the 60 of the first occurrence. The differential then writes
  its ten entries into the full blood count panel, over any test of that panel with one of
  these names: in the row, the full blood count has the differential's percentage 33.33
  and the other panel keeps the sampled 60.
\<close>

theorem shared_value_overwritten_by_differential:
  "sample_panels ''male'' 50 [] (rs_np clash_source) [] clash_profile ([], [], 0)
     = Inr ([(''FBC'', Some [(''WBC'', PNum 7), (''Neutrophils (%)'', PNum 60)]),
             (''Immunology'', Some [(''Neutrophils (%)'', PNum 60)])],
            [(''WBC'', 7), (''Neutrophils (%)'', 60)], 2)
   \<and> cell_of (generate_lab_results ''Sepsis'' ''male'' 50 None [(''Sepsis'', clash_profile)]
              (14 / 100) clash_source) ''FBC - Neutrophils (%)''
     = Some (CVal (PNum (3333 / 100)))
   \<and> cell_of (generate_lab_results ''Sepsis'' ''male'' 50 None [(''Sepsis'', clash_profile)]
              (14 / 100) clash_source) ''Immunology - Neutrophils (%)''
     = Some (CVal (PNum 60))"
  by code_simp

section \<open>The columns of a row\<close>

text \<open>
  Claim C4 says that all rows of one condition have the same columns, whatever was
  omitted. The column list is built from the profile, and the differential's ten columns
  are listed only where the panel declares \<^verbatim>\<open>differential_props\<close>; but the row is then
  filled from \<^verbatim>\<open>results\<close>, where the differential has added its ten entries to every
  sampled full blood count panel. On a full blood count without
  \<^verbatim>\<open>differential_props\<close> the row therefore has ten more columns when the panel is
  sampled than when it is omitted.
\<close>

theorem schema_depends_on_omission:
  "columns_of (generate_lab_results ''Anaemia'' ''male'' 50 None [(''Anaemia'', plain_fbc_profile)]
                 (14 / 100) fbc_omitted_source)
     = [''Sex'', ''Age'', ''Condition'', ''FBC - WBC'', ''LFT - ALT'']
   \<and> columns_of (generate_lab_results ''Anaemia'' ''male'' 50 None [(''Anaemia'', plain_fbc_profile)]
                 (14 / 100) no_omission_source)
     = [''Sex'', ''Age'', ''Condition'', ''FBC - WBC'', ''LFT - ALT'']
       @ differential_columns ''FBC''
   \<and> length (differential_columns ''FBC'') = 10"
  by code_simp


end
